theory Spec2Isabelle
  imports Complex_Main
begin

section \<open>Values shared by both modules\<close>

text \<open>
  A thrown JavaScript value. The only error the modelled code constructs itself is
  \<^verbatim>\<open>new Error(message)\<close>; whatever a collaborator throws is carried the same way.
\<close>

datatype error = Error string

text \<open>
  JavaScript truthiness of a value of type \<^verbatim>\<open>string | undefined\<close>: \<^verbatim>\<open>undefined\<close> and the
  empty string are falsy, every other string is truthy.
\<close>

definition truthy :: "string option \<Rightarrow> bool" where
  "truthy v = (case v of None \<Rightarrow> False | Some s \<Rightarrow> s \<noteq> [])"

text \<open>\<^verbatim>\<open>a || b\<close> on two such values.\<close>

definition or_else :: "string option \<Rightarrow> string option \<Rightarrow> string option" where
  "or_else a b = (if truthy a then a else b)"

text \<open>
  A value that \<^verbatim>\<open>response.json()\<close> can resolve to. The module casts it to
  \<^verbatim>\<open>ClientFeaturesResponse\<close> without looking at it, so it may be any JSON value. An object or
  an array is carried as \<open>JObject\<close>, with \<open>'p\<close> standing for it; only its presence matters to
  the module. Truthiness: \<^verbatim>\<open>null\<close>, \<^verbatim>\<open>false\<close>, zero and the empty string are falsy, every
  object and array is truthy.
\<close>

datatype 'p js_value = JNull | JBoolean bool | JNumber real | JString string | JObject 'p

fun truthy_value :: "'p js_value \<Rightarrow> bool" where
  "truthy_value JNull = False"
| "truthy_value (JBoolean b) = b"
| "truthy_value (JNumber x) = (x \<noteq> 0)"
| "truthy_value (JString s) = (s \<noteq> [])"
| "truthy_value (JObject d) = True"

text \<open>
  \<^verbatim>\<open>String.prototype.toLowerCase\<close> on code units below 256 (read as Latin-1): the letters
  A-Z, and the accented capitals 0xC0-0xDE apart from the multiplication sign 0xD7,
  move up by 32; every other code unit stays.
\<close>

definition toLowerCase_char :: "char \<Rightarrow> char" where
  "toLowerCase_char c =
     (let n = (of_char c :: nat)
      in if (65 \<le> n \<and> n \<le> 90) \<or> (192 \<le> n \<and> n \<le> 222 \<and> n \<noteq> 215)
         then char_of (n + 32) else c)"

definition toLowerCase :: "string \<Rightarrow> string" where
  "toLowerCase s = map toLowerCase_char s"

subsection \<open>Fetch options\<close>

text \<open>
  \<^verbatim>\<open>type FetchOptions = RequestInit & { next?: { revalidate?: number | false; tags?: string[] } }\<close>.
  Of \<^verbatim>\<open>RequestInit\<close> the code reads \<^verbatim>\<open>headers\<close> only. The remaining members are passed
  through unread (\<open>init\<close>, \<open>None\<close> when there are none).

  \<^verbatim>\<open>headers\<close> is a \<^verbatim>\<open>HeadersInit\<close>, which has three forms: a plain object from names to
  values, in insertion order (a value may be \<^verbatim>\<open>null\<close> or \<^verbatim>\<open>undefined\<close>, \<open>None\<close>); a
  \<^verbatim>\<open>Headers\<close> instance, given here by the name-value pairs it holds; and an array of
  name-value pairs.
\<close>

datatype HeadersInit =
  PlainRecord "(string \<times> string option) list"
| HeadersInstance "(string \<times> string) list"
| TupleArray "(string \<times> string) list"

datatype revalidation = Seconds int | NoRevalidation

record next_config =
  revalidate :: "revalidation option"
  tags :: "string list option"

record 'i FetchOptions =
  headers :: "HeadersInit option"
  "next" :: "next_config option"
  init :: "'i option"

definition empty_FetchOptions :: "'i FetchOptions" where
  "empty_FetchOptions = \<lparr>headers = None, next = None, init = None\<rparr>"

section \<open>getDefinitions.ts\<close>

definition defaultUrl :: string where
  "defaultUrl = ''http://localhost:4242/api/client/features''"

definition defaultToken :: string where
  "defaultToken = ''default:development.unleash-insecure-api-token''"

text \<open>The environment variables \<^verbatim>\<open>getDefaultConfig\<close> reads from \<^verbatim>\<open>process.env\<close>.\<close>

record environment =
  UNLEASH_SERVER_API_URL :: "string option"
  NEXT_PUBLIC_UNLEASH_SERVER_API_URL :: "string option"
  UNLEASH_SERVER_API_TOKEN :: "string option"
  UNLEASH_SERVER_INSTANCE_ID :: "string option"
  UNLEASH_APP_NAME :: "string option"
  NEXT_PUBLIC_UNLEASH_APP_NAME :: "string option"

text \<open>
  A response of the transport, as far as the code reads it: \<^verbatim>\<open>status\<close>, the value of
  \<^verbatim>\<open>headers?.get?.("etag")\<close> (\<open>None\<close> for \<^verbatim>\<open>null\<close> or \<^verbatim>\<open>undefined\<close>), and what \<^verbatim>\<open>json()\<close>
  resolves to or rejects with. \<^verbatim>\<open>ok\<close> is the status range 200-299.
\<close>

record 'p response =
  status :: nat
  etag_header :: "string option"
  json :: "error + 'p js_value"

definition ok :: "'p response \<Rightarrow> bool" where
  "ok r = (200 \<le> status r \<and> status r < 300)"

text \<open>The request handed to \<^verbatim>\<open>fetch\<close>: the URL and \<^verbatim>\<open>{ ...fetchOptions, headers }\<close>.\<close>

record 'i request =
  request_url :: string
  request_headers :: "string \<rightharpoonup> string"
  request_options :: "'i FetchOptions"

text \<open>
  What the module takes from outside itself: the process environment, the two constants
  read from \<^verbatim>\<open>package.json\<close>, \<^verbatim>\<open>removeTrailingSlash\<close> of \<^verbatim>\<open>./utils\<close>,
  \<^verbatim>\<open>new URL(url).toString()\<close> (which throws on a malformed URL) and the global \<^verbatim>\<open>fetch\<close>
  (which rejects on a transport failure).
\<close>

record ('p, 'i) platform =
  env :: environment
  version :: string
  supportedSpecVersion :: string
  removeTrailingSlash :: "string option \<Rightarrow> string option"
  parseURL :: "string \<Rightarrow> error + string"
  fetch :: "'i request \<Rightarrow> error + 'p response"

record 'i config =
  appName :: string
  url :: string
  token :: "string option"
  instanceId :: "string option"
  fetchOptions :: "'i FetchOptions"

text \<open>\<^verbatim>\<open>Partial<ReturnType<typeof getDefaultConfig>>\<close>: \<open>None\<close> is an absent property.\<close>

record 'i partial_config =
  p_appName :: "string option"
  p_url :: "string option"
  p_token :: "string option"
  p_instanceId :: "string option"
  p_fetchOptions :: "'i FetchOptions option"

definition getDefaultConfig :: "('p, 'i) platform \<Rightarrow> string \<Rightarrow> 'i config" where
  "getDefaultConfig P defaultAppName =
     (let baseUrl = removeTrailingSlash P
            (or_else (UNLEASH_SERVER_API_URL (env P)) (NEXT_PUBLIC_UNLEASH_SERVER_API_URL (env P)));
          envToken = UNLEASH_SERVER_API_TOKEN (env P);
          instanceId = UNLEASH_SERVER_INSTANCE_ID (env P);
          token = (if truthy envToken then envToken
                   else if \<not> truthy instanceId then Some defaultToken
                   else None)
      in \<lparr>appName = the (or_else (or_else (UNLEASH_APP_NAME (env P))
                                   (NEXT_PUBLIC_UNLEASH_APP_NAME (env P)))
                          (Some defaultAppName)),
          url = (if truthy baseUrl then the baseUrl @ ''/client/features'' else defaultUrl),
          token = (if truthy token then token else None),
          instanceId = (if truthy instanceId then instanceId else None),
          fetchOptions = empty_FetchOptions\<rparr>)"

text \<open>\<^verbatim>\<open>{ ...getDefaultConfig(), ...(config || {}) }\<close>: a property of \<^verbatim>\<open>config\<close> wins.\<close>

definition mergeConfig :: "'i config \<Rightarrow> 'i partial_config option \<Rightarrow> 'i config" where
  "mergeConfig d config =
     (case config of
        None \<Rightarrow> d
      | Some c \<Rightarrow>
          \<lparr>appName = (case p_appName c of Some v \<Rightarrow> v | None \<Rightarrow> appName d),
           url = (case p_url c of Some v \<Rightarrow> v | None \<Rightarrow> url d),
           token = (case p_token c of Some v \<Rightarrow> Some v | None \<Rightarrow> token d),
           instanceId = (case p_instanceId c of Some v \<Rightarrow> Some v | None \<Rightarrow> instanceId d),
           fetchOptions = (case p_fetchOptions c of Some v \<Rightarrow> v | None \<Rightarrow> fetchOptions d)\<rparr>)"

subsection \<open>The cache and its key\<close>

record 'p CacheEntry =
  etag :: "string option"
  definitions :: "'p js_value option"

text \<open>\<^verbatim>\<open>const definitionsCache = new Map<string, CacheEntry>()\<close>.\<close>

type_synonym 'p definitionsCache = "string \<rightharpoonup> 'p CacheEntry"

text \<open>
  \<^verbatim>\<open>JSON.stringify\<close> of a string: the quotation mark and the backslash are escaped with a
  backslash, backspace, tab, line feed, form feed and carriage return have their
  two-character escapes, every other code unit below 0x20 is written as a \<^verbatim>\<open>\u00XX\<close>
  escape with lower-case hexadecimal digits, and the rest is copied.
\<close>

definition hex_digit :: "nat \<Rightarrow> char" where
  "hex_digit n = (if n < 10 then char_of (48 + n) else char_of (87 + n))"

definition json_escape :: "char \<Rightarrow> string" where
  "json_escape c =
     (if c = CHR 0x22 then [CHR 0x5C, CHR 0x22]
      else if c = CHR 0x5C then [CHR 0x5C, CHR 0x5C]
      else if c = CHR 0x08 then [CHR 0x5C, CHR ''b'']
      else if c = CHR 0x09 then [CHR 0x5C, CHR ''t'']
      else if c = CHR 0x0A then [CHR 0x5C, CHR ''n'']
      else if c = CHR 0x0C then [CHR 0x5C, CHR ''f'']
      else if c = CHR 0x0D then [CHR 0x5C, CHR ''r'']
      else if (of_char c :: nat) < 32
      then [CHR 0x5C, CHR ''u'', CHR ''0'', CHR ''0'',
            hex_digit (of_char c div 16), hex_digit (of_char c mod 16)]
      else [c])"

definition json_string :: "string \<Rightarrow> string" where
  "json_string s = CHR 0x22 # concat (map json_escape s) @ [CHR 0x22]"

text \<open>\<^verbatim>\<open>headers[name] || ""\<close>.\<close>

definition header_or_empty :: "(string \<rightharpoonup> string) \<Rightarrow> string \<Rightarrow> string" where
  "header_or_empty hs name = (if truthy (hs name) then the (hs name) else [])"

definition getCacheKey :: "string \<Rightarrow> (string \<rightharpoonup> string) \<Rightarrow> string" where
  \<open>getCacheKey u hs =
     ''{"url":'' @ json_string u
     @ '',"authorization":'' @ json_string (header_or_empty hs ''authorization'')
     @ '',"instanceId":'' @ json_string (header_or_empty hs ''unleash-instanceid'')
     @ '',"appName":'' @ json_string (header_or_empty hs ''unleash-appname'')
     @ ''}''\<close>

subsection \<open>Building the request\<close>

text \<open>The decimal numeral of an array index, as \<^verbatim>\<open>Object.entries\<close> gives it for a key.\<close>

fun decimal :: "nat \<Rightarrow> string" where
  "decimal n =
     (if n < 10 then [char_of (48 + n)]
      else decimal (n div 10) @ [char_of (48 + n mod 10)])"

declare decimal.simps [simp del]

text \<open>
  \<^verbatim>\<open>Object.entries\<close> of an array of pairs, from index \<open>i\<close> on: the key is the index, the
  value the pair, which \<^verbatim>\<open>String(value)\<close> turns into its two members joined by a comma.
\<close>

fun tupleEntries :: "nat \<Rightarrow> (string \<times> string) list \<Rightarrow> (string \<times> string option) list" where
  "tupleEntries i [] = []"
| "tupleEntries i ((k, v) # rest) = (decimal i, Some (k @ '','' @ v)) # tupleEntries (Suc i) rest"

text \<open>
  \<^verbatim>\<open>Object.entries(fetchOptions.headers)\<close>, each value as \<^verbatim>\<open>String(value)\<close> gives it: the
  entries of a plain object; nothing for a \<^verbatim>\<open>Headers\<close> instance, which has no enumerable own
  property; the indexed pairs of an array.
\<close>

fun objectEntries :: "HeadersInit \<Rightarrow> (string \<times> string option) list" where
  "objectEntries (PlainRecord entries) = entries"
| "objectEntries (HeadersInstance held) = []"
| "objectEntries (TupleArray pairs) = tupleEntries 0 pairs"

text \<open>
  The \<^verbatim>\<open>forEach\<close> over \<^verbatim>\<open>Object.entries(fetchOptions.headers)\<close>: an entry whose value is
  neither \<^verbatim>\<open>null\<close> nor \<^verbatim>\<open>undefined\<close> is stored under its lower-cased name; a later entry
  overwrites an earlier one of the same lower-cased name.
\<close>

fun addHeaders :: "(string \<rightharpoonup> string) \<Rightarrow> (string \<times> string option) list \<Rightarrow> (string \<rightharpoonup> string)" where
  "addHeaders hs [] = hs"
| "addHeaders hs ((key, v) # rest) =
     addHeaders (case v of None \<Rightarrow> hs | Some s \<Rightarrow> hs(toLowerCase key \<mapsto> s)) rest"

text \<open>Lines 96-120: the headers before the cache is consulted.\<close>

definition baseHeaders :: "('p, 'i) platform \<Rightarrow> 'i config \<Rightarrow> (string \<rightharpoonup> string)" where
  "baseHeaders P c =
     (let sendAuthorizationToken = (\<not> truthy (instanceId c) \<or> token c \<noteq> Some defaultToken);
          h0 = [''content-type'' \<mapsto> ''application/json'',
                ''user-agent'' \<mapsto> appName c,
                ''unleash-client-spec'' \<mapsto> supportedSpecVersion P,
                ''unleash-sdk'' \<mapsto> ''unleash-nextjs-sdk:'' @ version P,
                ''unleash-appname'' \<mapsto> appName c];
          h1 = (if sendAuthorizationToken \<and> truthy (token c)
                then h0(''authorization'' \<mapsto> the (token c)) else h0);
          h2 = (if truthy (instanceId c)
                then h1(''unleash-instanceid'' \<mapsto> the (instanceId c)) else h1)
      in case headers (fetchOptions c) of
           None \<Rightarrow> h2
         | Some given \<Rightarrow> addHeaders h2 (objectEntries given))"

text \<open>\<^verbatim>\<open>cached?.etag\<close> and \<^verbatim>\<open>cached?.definitions\<close>.\<close>

definition cached_etag :: "'p CacheEntry option \<Rightarrow> string option" where
  "cached_etag cached = (case cached of None \<Rightarrow> None | Some e \<Rightarrow> etag e)"

definition cached_definitions :: "'p CacheEntry option \<Rightarrow> 'p js_value option" where
  "cached_definitions cached = (case cached of None \<Rightarrow> None | Some e \<Rightarrow> definitions e)"

text \<open>Lines 125-127: the cache-derived conditional header.\<close>

definition conditionalHeaders :: "(string \<rightharpoonup> string) \<Rightarrow> 'p CacheEntry option \<Rightarrow> (string \<rightharpoonup> string)" where
  "conditionalHeaders hs cached =
     (if \<not> truthy (hs ''if-none-match'') \<and> truthy (cached_etag cached)
      then hs(''if-none-match'' \<mapsto> the (cached_etag cached))
      else hs)"

subsection \<open>Handling the response\<close>

definition StaleCacheError :: error where
  "StaleCacheError =
     Error ''Unleash: Received 304 Not Modified but no cached definitions are available.''"

text \<open>
  Lines 134-157. \<open>cached\<close> is the entry read before the request went out, \<open>cache\<close> the
  map the call writes to. Line 135 tests \<^verbatim>\<open>cached?.definitions\<close> for truthiness: stored
  definitions that are falsy count as none.
\<close>

definition handleResponse ::
  "string \<Rightarrow> 'p CacheEntry option \<Rightarrow> 'p definitionsCache \<Rightarrow> 'p response
     \<Rightarrow> (error + 'p js_value) \<times> 'p definitionsCache" where
  "handleResponse cacheKey cached cache r =
     (if status r = 304
      then (case cached_definitions cached of
              Some d \<Rightarrow>
                if truthy_value d then (Inr d, cache) else (Inl StaleCacheError, cache)
            | None \<Rightarrow> (Inl StaleCacheError, cache))
      else (case json r of
              Inl e \<Rightarrow> (Inl e, cache)
            | Inr d \<Rightarrow>
                if ok r
                then (if truthy (etag_header r)
                      then (Inr d, cache(cacheKey \<mapsto> \<lparr>etag = etag_header r, definitions = Some d\<rparr>))
                      else (Inr d, cache(cacheKey := None)))
                else (Inr d, cache)))"

subsection \<open>The whole call\<close>

text \<open>
  The request a call sends, or the error of \<^verbatim>\<open>new URL(url)\<close>; with it the cache key and the
  entry found under it. The two console messages of lines 82-92 write to no state the module
  reads and are left out.
\<close>

definition prepare ::
  "('p, 'i) platform \<Rightarrow> 'p definitionsCache \<Rightarrow> 'i partial_config option
     \<Rightarrow> error + (string \<times> 'p CacheEntry option \<times> 'i request)" where
  "prepare P cache config =
     (let c = mergeConfig (getDefaultConfig P ''nextjs'') config
      in case parseURL P (url c) of
           Inl e \<Rightarrow> Inl e
         | Inr fetchUrl \<Rightarrow>
             (let hs = baseHeaders P c;
                  cacheKey = getCacheKey fetchUrl hs;
                  cached = cache cacheKey
              in Inr (cacheKey, cached,
                      \<lparr>request_url = fetchUrl,
                       request_headers = conditionalHeaders hs cached,
                       request_options = fetchOptions c\<rparr>)))"

definition getDefinitions ::
  "('p, 'i) platform \<Rightarrow> 'p definitionsCache \<Rightarrow> 'i partial_config option
     \<Rightarrow> (error + 'p js_value) \<times> 'p definitionsCache" where
  "getDefinitions P cache config =
     (case prepare P cache config of
        Inl e \<Rightarrow> (Inl e, cache)
      | Inr (cacheKey, cached, req) \<Rightarrow>
          (case fetch P req of
             Inl e \<Rightarrow> (Inl e, cache)
           | Inr r \<Rightarrow> handleResponse cacheKey cached cache r))"

text \<open>The value of a header on the request a call sends, if it gets as far as sending one.\<close>

definition sentHeader ::
  "('p, 'i) platform \<Rightarrow> 'p definitionsCache \<Rightarrow> 'i partial_config option \<Rightarrow> string
     \<Rightarrow> string option" where
  "sentHeader P cache config name =
     (case prepare P cache config of
        Inl e \<Rightarrow> None
      | Inr (cacheKey, cached, req) \<Rightarrow> request_headers req name)"

text \<open>
  In a list of entries, the value of the last one whose lower-cased name is the given name
  and whose value is neither \<^verbatim>\<open>null\<close> nor \<^verbatim>\<open>undefined\<close>.
\<close>

fun lastSupplied :: "(string \<times> string option) list \<Rightarrow> string \<Rightarrow> string option" where
  "lastSupplied [] name = None"
| "lastSupplied ((key, v) # rest) name =
     (case lastSupplied rest name of
        Some s \<Rightarrow> Some s
      | None \<Rightarrow> (if toLowerCase key = name then v else None))"

text \<open>
  What the loop of lines 114-120 finds for a header name in the caller's options: the last
  such value among the entries \<^verbatim>\<open>Object.entries\<close> enumerates.
\<close>

definition enumeratedHeader :: "'i FetchOptions \<Rightarrow> string \<Rightarrow> string option" where
  "enumeratedHeader fo name =
     (case headers fo of
        None \<Rightarrow> None
      | Some given \<Rightarrow> lastSupplied (objectEntries given) name)"

text \<open>
  The values a \<^verbatim>\<open>Headers\<close> instance or an array of pairs holds for a name, whatever the
  letter-casing, joined by a comma and a space as \<^verbatim>\<open>Headers.get\<close> joins them.
\<close>

fun joinValues :: "string list \<Rightarrow> string" where
  "joinValues [] = []"
| "joinValues [v] = v"
| "joinValues (v # vs) = v @ '', '' @ joinValues vs"

definition heldValue :: "(string \<times> string) list \<Rightarrow> string \<Rightarrow> string option" where
  "heldValue held name =
     (case map snd (filter (\<lambda>kv. toLowerCase (fst kv) = name) held) of
        [] \<Rightarrow> None
      | vs \<Rightarrow> Some (joinValues vs))"

text \<open>
  What the caller supplied for a header name, in whichever form the headers were given: for
  a plain object the last entry of that name (under any letter-casing) with a value, for the
  other two forms the values held for the name.
\<close>

definition suppliedHeader :: "'i FetchOptions \<Rightarrow> string \<Rightarrow> string option" where
  "suppliedHeader fo name =
     (case headers fo of
        None \<Rightarrow> None
      | Some (PlainRecord entries) \<Rightarrow> lastSupplied entries name
      | Some (HeadersInstance held) \<Rightarrow> heldValue held name
      | Some (TupleArray pairs) \<Rightarrow> heldValue pairs name)"

text \<open>The caller gave no headers, or gave them as a plain object.\<close>

definition plainObject :: "'i FetchOptions \<Rightarrow> bool" where
  "plainObject fo =
     (case headers fo of
        None \<Rightarrow> True
      | Some (PlainRecord entries) \<Rightarrow> True
      | Some (HeadersInstance held) \<Rightarrow> False
      | Some (TupleArray pairs) \<Rightarrow> False)"



section \<open>flag.ts\<close>

text \<open>
  \<^verbatim>\<open>Partial<IVariant>\<close> of unleash-proxy-client: every member optional, \<^verbatim>\<open>{}\<close> has none.
\<close>

record partial_variant =
  variant_name :: "string option"
  variant_enabled :: "bool option"
  variant_feature_enabled :: "bool option"
  variant_payload :: "(string \<times> string) option"

definition emptyVariant :: partial_variant where
  "emptyVariant = \<lparr>variant_name = None, variant_enabled = None,
                    variant_feature_enabled = None, variant_payload = None\<rparr>"

text \<open>
  \<^verbatim>\<open>type EvaluationCache = { etag?; definitions?; contextKey?; toggles? }\<close>. A definitions
  document is an object compared with \<^verbatim>\<open>===\<close>, so \<open>'d\<close> stands for the reference and
  equality on \<open>'d\<close> for identity. \<open>'t\<close> is \<^verbatim>\<open>IToggle\<close>; an array is truthy also when empty.
\<close>

record ('d, 't) EvaluationCache =
  ev_etag :: "string option"
  ev_definitions :: "'d option"
  contextKey :: "string option"
  toggles :: "'t list option"

text \<open>
  Modelled from the spec: the type \<^verbatim>\<open>DefinitionsCache\<close> that \<^verbatim>\<open>flag.ts\<close> imports from
  \<^verbatim>\<open>./getDefinitions\<close> is not declared in the module as given. \<^verbatim>\<open>flag\<close> reads two members of
  the handle, \<^verbatim>\<open>etag\<close> and \<^verbatim>\<open>definitions\<close>, both optional (spec, section 3).
\<close>

record 'd DefinitionsCache =
  dc_etag :: "string option"
  dc_definitions :: "'d option"

record 'a client =
  isEnabled :: "string \<Rightarrow> error + bool"
  getVariant :: "string \<Rightarrow> error + partial_variant"
  more_members :: 'a

text \<open>
  The collaborators \<^verbatim>\<open>flag\<close> calls, none of them part of the module:
  \<^verbatim>\<open>getDefinitionsCached\<close> (it receives the request options and the cache handle, may write
  to the handle, and resolves or rejects), \<^verbatim>\<open>JSON.stringify\<close> on a context,
  \<^verbatim>\<open>evaluateFlags\<close> (its \<^verbatim>\<open>toggles\<close> member, or what it throws) and \<^verbatim>\<open>flagsClient\<close>.
\<close>

record ('d, 'c, 't, 'i, 'a) collaborators =
  getDefinitionsCached ::
    "'i partial_config \<Rightarrow> 'd DefinitionsCache \<Rightarrow> (error + 'd) \<times> 'd DefinitionsCache"
  serializeContext :: "'c \<Rightarrow> string"
  evaluateFlags :: "'d \<Rightarrow> 'c \<Rightarrow> error + 't list"
  flagsClient :: "'t list \<Rightarrow> error + 'a client"

text \<open>The calls of the two collaborators the tests count, in the order they are made.\<close>

datatype ('d, 'c, 't) call = EvaluateFlags 'd 'c | FlagsClient "'t list"

fun is_EvaluateFlags :: "('d, 'c, 't) call \<Rightarrow> bool" where
  "is_EvaluateFlags (EvaluateFlags d c) = True"
| "is_EvaluateFlags (FlagsClient ts) = False"

record flag_result =
  enabled :: bool
  variant :: partial_variant
  error :: "error option"

text \<open>
  What a call leaves behind: the value returned, the two cache objects (the ones given in
  the options, or the module's default pair: the model is handed the state of whichever
  was selected; the two handles are distinct objects) and the collaborator calls made.
\<close>

record ('d, 'c, 't) run =
  result :: flag_result
  definitionsCache :: "'d DefinitionsCache"
  evaluationCache :: "('d, 't) EvaluationCache"
  calls :: "('d, 'c, 't) call list"

text \<open>Lines 42-45 and 59-62: the revalidation default and the merged fetch options.\<close>

definition revalidateOf :: "'i partial_config option \<Rightarrow> revalidation" where
  "revalidateOf options =
     (case options of
        None \<Rightarrow> Seconds 15
      | Some opts \<Rightarrow>
          (case p_fetchOptions opts of
             None \<Rightarrow> Seconds 15
           | Some fo \<Rightarrow>
               (case next fo of
                  None \<Rightarrow> Seconds 15
                | Some n \<Rightarrow> (case revalidate n of None \<Rightarrow> Seconds 15 | Some r \<Rightarrow> r))))"

definition mergedFetchOptions :: "'i partial_config option \<Rightarrow> 'i FetchOptions" where
  "mergedFetchOptions options =
     (let providedFetchOptions = (case options of None \<Rightarrow> None | Some opts \<Rightarrow> p_fetchOptions opts);
          fo = (case providedFetchOptions of None \<Rightarrow> empty_FetchOptions | Some f \<Rightarrow> f)
      in case next fo of
           Some n \<Rightarrow> fo
         | None \<Rightarrow> fo\<lparr>next := Some \<lparr>revalidate = Some (revalidateOf options), tags = None\<rparr>\<rparr>)"

text \<open>Lines 65-69: the argument of \<^verbatim>\<open>getDefinitionsCached\<close>, the cache handle apart.\<close>

definition fetchArguments :: "'i partial_config option \<Rightarrow> 'i partial_config" where
  "fetchArguments options =
     (let restOptions = (case options of
                           None \<Rightarrow> \<lparr>p_appName = None, p_url = None, p_token = None,
                                    p_instanceId = None, p_fetchOptions = None\<rparr>
                         | Some opts \<Rightarrow> opts)
      in restOptions\<lparr>p_fetchOptions := Some (mergedFetchOptions options)\<rparr>)"

text \<open>Lines 96-101: the client built from the toggles and its two lookups.\<close>

definition clientLookup ::
  "('d, 'c, 't, 'i, 'a) collaborators \<Rightarrow> string \<Rightarrow> 't list \<Rightarrow> error + (bool \<times> partial_variant)" where
  "clientLookup C name ts =
     (case flagsClient C ts of
        Inl e \<Rightarrow> Inl e
      | Inr cl \<Rightarrow>
          (case isEnabled cl name of
             Inl e \<Rightarrow> Inl e
           | Inr b \<Rightarrow>
               (case getVariant cl name of
                  Inl e \<Rightarrow> Inl e
                | Inr v \<Rightarrow> Inr (b, v))))"

text \<open>
  Lines 65-101, the body of the \<^verbatim>\<open>try\<close>: its value or the error thrown, the two caches as
  they are when it ends, and the calls made.
\<close>

definition flag_try ::
  "('d, 'c, 't, 'i, 'a) collaborators \<Rightarrow> string \<Rightarrow> 'c \<Rightarrow> 'i partial_config option
     \<Rightarrow> 'd DefinitionsCache \<Rightarrow> ('d, 't) EvaluationCache
     \<Rightarrow> (error + (bool \<times> partial_variant)) \<times> 'd DefinitionsCache \<times> ('d, 't) EvaluationCache
         \<times> ('d, 'c, 't) call list" where
  "flag_try C name context options dc ec =
     (case getDefinitionsCached C (fetchArguments options) dc of
        (Inl e, dc') \<Rightarrow> (Inl e, dc', ec, [])
      | (Inr defs, dc') \<Rightarrow>
          (let key = serializeContext C context;
               definitionsMatch =
                 (if truthy (ev_etag ec) \<and> truthy (dc_etag dc')
                  then ev_etag ec = dc_etag dc'
                  else ev_definitions ec = dc_definitions dc')
           in if toggles ec \<noteq> None \<and> contextKey ec = Some key \<and> definitionsMatch
              then (clientLookup C name (the (toggles ec)), dc', ec,
                    [FlagsClient (the (toggles ec))])
              else (case evaluateFlags C defs context of
                      Inl e \<Rightarrow> (Inl e, dc', ec, [EvaluateFlags defs context])
                    | Inr ts \<Rightarrow>
                        (clientLookup C name ts, dc',
                         \<lparr>ev_etag = dc_etag dc',
                          ev_definitions = (case dc_definitions dc' of
                                              Some d \<Rightarrow> Some d
                                            | None \<Rightarrow> Some defs),
                          contextKey = Some key,
                          toggles = Some ts\<rparr>,
                         [EvaluateFlags defs context, FlagsClient ts]))))"

definition failure :: "error \<Rightarrow> flag_result" where
  "failure e = \<lparr>enabled = False, variant = emptyVariant, error = Some e\<rparr>"

text \<open>
  Lines 98-107: what the function returns for the outcome of the \<^verbatim>\<open>try\<close> body, the object
  of the body's \<^verbatim>\<open>return\<close> (it has no \<^verbatim>\<open>error\<close> member) or the one of the \<^verbatim>\<open>catch\<close>.
\<close>

definition returned :: "error + (bool \<times> partial_variant) \<Rightarrow> flag_result" where
  "returned r =
     (case r of
        Inl e \<Rightarrow> failure e
      | Inr (b, v) \<Rightarrow> \<lparr>enabled = b, variant = v, error = None\<rparr>)"

text \<open>Lines 37-109: the whole function.\<close>

definition flag ::
  "('d, 'c, 't, 'i, 'a) collaborators \<Rightarrow> string \<Rightarrow> 'c \<Rightarrow> 'i partial_config option
     \<Rightarrow> 'd DefinitionsCache \<Rightarrow> ('d, 't) EvaluationCache \<Rightarrow> ('d, 'c, 't) run" where
  "flag C name context options dc ec =
     (case flag_try C name context options dc ec of
        (r, dc', ec', cs) \<Rightarrow>
          \<lparr>result = returned r, definitionsCache = dc', evaluationCache = ec', calls = cs\<rparr>)"

subsection \<open>The reuse rule in the words of the specification\<close>

text \<open>
  The freshness signal: equality of the etags when both sides carry a non-empty one,
  otherwise identity of the stored definitions with the current ones.
\<close>

definition freshnessSignal :: "('d, 't) EvaluationCache \<Rightarrow> 'd DefinitionsCache \<Rightarrow> bool" where
  "freshnessSignal ec dc =
     (if truthy (ev_etag ec) \<and> truthy (dc_etag dc)
      then ev_etag ec = dc_etag dc
      else ev_definitions ec = dc_definitions dc)"

text \<open>Reuse is permitted: a toggle list is held, the context key is the same, nothing changed.\<close>

definition reusePermitted ::
  "('d, 't) EvaluationCache \<Rightarrow> 'd DefinitionsCache \<Rightarrow> string \<Rightarrow> bool" where
  "reusePermitted ec dc key =
     ((case toggles ec of None \<Rightarrow> False | Some ts \<Rightarrow> True)
      \<and> contextKey ec = Some key \<and> freshnessSignal ec dc)"

text \<open>The stored list is reused: the only collaborator call is the client built from it.\<close>

definition storedTogglesReused :: "('d, 't) EvaluationCache \<Rightarrow> ('d, 'c, 't) run \<Rightarrow> bool" where
  "storedTogglesReused ec out =
     (case toggles ec of None \<Rightarrow> False | Some ts \<Rightarrow> calls out = [FlagsClient ts])"

definition evaluatorInvoked :: "('d, 'c, 't) run \<Rightarrow> bool" where
  "evaluatorInvoked out = list_ex is_EvaluateFlags (calls out)"

section \<open>Concrete inputs\<close>

subsection \<open>A server behind \<^const>\<open>getDefinitions\<close>\<close>

definition noEnvironment :: environment where
  "noEnvironment =
     \<lparr>UNLEASH_SERVER_API_URL = None, NEXT_PUBLIC_UNLEASH_SERVER_API_URL = None,
      UNLEASH_SERVER_API_TOKEN = None, UNLEASH_SERVER_INSTANCE_ID = None,
      UNLEASH_APP_NAME = None, NEXT_PUBLIC_UNLEASH_APP_NAME = None\<rparr>"

text \<open>No environment variable set, every URL well formed, and one fixed reply to any request.\<close>

definition serverReplying :: "(error + nat response) \<Rightarrow> (nat, unit) platform" where
  "serverReplying reply =
     \<lparr>env = noEnvironment, version = ''1.0.0'', supportedSpecVersion = ''5.1.9'',
      removeTrailingSlash = (\<lambda>u. u), parseURL = Inr, fetch = (\<lambda>req. reply)\<rparr>"

definition exampleHeaders :: "string \<rightharpoonup> string" where
  "exampleHeaders =
     [''content-type'' \<mapsto> ''application/json'',
      ''user-agent'' \<mapsto> ''nextjs'',
      ''unleash-client-spec'' \<mapsto> ''5.1.9'',
      ''unleash-sdk'' \<mapsto> ''unleash-nextjs-sdk:1.0.0'',
      ''unleash-appname'' \<mapsto> ''nextjs'',
      ''authorization'' \<mapsto> defaultToken]"

definition exampleKey :: string where
  \<open>exampleKey = ''{"url":"http://localhost:4242/api/client/features","authorization":"default:development.unleash-insecure-api-token","instanceId":"","appName":"nextjs"}''\<close>

definition exampleCache :: "nat definitionsCache" where
  "exampleCache = [exampleKey \<mapsto> \<lparr>etag = Some ''etag-1'', definitions = Some (JObject 7)\<rparr>]"

definition withHeaders :: "HeadersInit \<Rightarrow> unit partial_config option" where
  "withHeaders given =
     Some \<lparr>p_appName = None, p_url = None, p_token = None, p_instanceId = None,
           p_fetchOptions = Some \<lparr>headers = Some given, next = None, init = None\<rparr>\<rparr>"

definition okResponse :: "string option \<Rightarrow> nat js_value \<Rightarrow> nat response" where
  "okResponse e d = \<lparr>status = 200, etag_header = e, json = Inr d\<rparr>"

definition notModified :: "nat response" where
  "notModified =
     \<lparr>status = 304, etag_header = Some ''etag-2'',
      json = Inl (Error ''Unexpected end of JSON input'')\<rparr>"

definition serverError :: "nat response" where
  "serverError = \<lparr>status = 500, etag_header = None, json = Inr (JObject 0)\<rparr>"

definition unparsable :: "nat response" where
  "unparsable =
     \<lparr>status = 200, etag_header = Some ''etag-2'', json = Inl (Error ''Unexpected token'')\<rparr>"

subsection \<open>The collaborators of the test of \<^const>\<open>flag\<close>\<close>

record toggle =
  toggle_name :: string
  toggle_enabled :: bool
  toggle_variant :: partial_variant
  impressionData :: bool

definition disabledVariant :: partial_variant where
  "disabledVariant =
     \<lparr>variant_name = Some ''disabled'', variant_enabled = Some False,
      variant_feature_enabled = None, variant_payload = None\<rparr>"

definition mockVariant :: partial_variant where
  "mockVariant =
     \<lparr>variant_name = Some ''variant'', variant_enabled = Some True,
      variant_feature_enabled = None, variant_payload = None\<rparr>"

definition mockToggles :: "toggle list" where
  "mockToggles =
     [\<lparr>toggle_name = ''feature-a'', toggle_enabled = True,
       toggle_variant = mockVariant, impressionData = False\<rparr>]"

definition mockClient :: "toggle list \<Rightarrow> error + unit client" where
  "mockClient ts =
     Inr \<lparr>isEnabled = (\<lambda>n. Inr (list_ex (\<lambda>t. toggle_name t = n \<and> toggle_enabled t) ts)),
          getVariant = (\<lambda>n. Inr (case find (\<lambda>t. toggle_name t = n) ts of
                                     Some t \<Rightarrow> toggle_variant t
                                   | None \<Rightarrow> disabledVariant)),
          more_members = ()\<rparr>"

text \<open>\<^verbatim>\<open>JSON.stringify\<close> of a context whose members are all strings.\<close>

fun stringifyMembers :: "(string \<times> string) list \<Rightarrow> string" where
  "stringifyMembers [] = []"
| "stringifyMembers [(k, v)] = json_string k @ '':'' @ json_string v"
| "stringifyMembers ((k, v) # rest) =
     json_string k @ '':'' @ json_string v @ '','' @ stringifyMembers rest"

definition stringifyContext :: "(string \<times> string) list \<Rightarrow> string" where
  "stringifyContext c = ''{'' @ stringifyMembers c @ ''}''"

type_synonym fetcher =
  "unit partial_config \<Rightarrow> nat DefinitionsCache \<Rightarrow> (error + nat) \<times> nat DefinitionsCache"

text \<open>The test's \<^verbatim>\<open>getDefinitionsCached\<close>: it writes the current etag and document to the handle.\<close>

definition serving :: "string option \<Rightarrow> nat \<Rightarrow> fetcher" where
  "serving currentEtag currentDefinitions =
     (\<lambda>opts cache. (Inr currentDefinitions,
                     \<lparr>dc_etag = currentEtag, dc_definitions = Some currentDefinitions\<rparr>))"

text \<open>One that rejects, and one that resolves without writing to the handle.\<close>

definition rejecting :: fetcher where
  "rejecting = (\<lambda>opts cache. (Inl (Error ''fetch failed''), cache))"

definition servingUncached :: "nat \<Rightarrow> fetcher" where
  "servingUncached currentDefinitions = (\<lambda>opts cache. (Inr currentDefinitions, cache))"

definition mockCollaborators ::
  "fetcher \<Rightarrow> (nat, (string \<times> string) list, toggle, unit, unit) collaborators" where
  "mockCollaborators f =
     \<lparr>getDefinitionsCached = f, serializeContext = stringifyContext,
      evaluateFlags = (\<lambda>d c. Inr mockToggles), flagsClient = mockClient\<rparr>"

definition userContext :: "(string \<times> string) list" where
  "userContext = [(''userId'', ''123'')]"

definition emptyHandle :: "nat DefinitionsCache" where
  "emptyHandle = \<lparr>dc_etag = None, dc_definitions = None\<rparr>"

definition currentHandle :: "nat DefinitionsCache" where
  "currentHandle = \<lparr>dc_etag = Some ''etag-1'', dc_definitions = Some 7\<rparr>"

definition emptyEvaluationCache :: "(nat, toggle) EvaluationCache" where
  "emptyEvaluationCache =
     \<lparr>ev_etag = None, ev_definitions = None, contextKey = None, toggles = None\<rparr>"

definition seededEvaluationCache :: "(nat, toggle) EvaluationCache" where
  \<open>seededEvaluationCache =
     \<lparr>ev_etag = Some ''etag-1'', ev_definitions = Some 7,
      contextKey = Some ''{"userId":"123"}'', toggles = Some mockToggles\<rparr>\<close>

section \<open>Properties of the cache key\<close>















section \<open>Properties of the conditional fetch\<close>

subsection \<open>The concrete server, evaluated\<close>

lemma lower_conditional: "toLowerCase ''If-None-Match'' = ''if-none-match''"
  by code_simp

lemma example_parseURL: "parseURL (serverReplying reply) u = Inr u"
  by (simp add: serverReplying_def)

lemma example_fetch: "fetch (serverReplying reply) req = reply"
  by (simp add: serverReplying_def)

lemma example_config:
  "mergeConfig (getDefaultConfig (serverReplying reply) ''nextjs'') None
   = \<lparr>appName = ''nextjs'', url = defaultUrl, token = Some defaultToken, instanceId = None,
      fetchOptions = empty_FetchOptions\<rparr>"
  by (simp add: mergeConfig_def getDefaultConfig_def serverReplying_def noEnvironment_def
        or_else_def truthy_def defaultToken_def)

lemma example_config_withHeaders:
  "mergeConfig (getDefaultConfig (serverReplying reply) ''nextjs'') (withHeaders given)
   = \<lparr>appName = ''nextjs'', url = defaultUrl, token = Some defaultToken, instanceId = None,
      fetchOptions = \<lparr>headers = Some given, next = None, init = None\<rparr>\<rparr>"
  by (simp add: mergeConfig_def getDefaultConfig_def serverReplying_def noEnvironment_def
        or_else_def truthy_def defaultToken_def withHeaders_def)

lemma example_baseHeaders:
  "baseHeaders (serverReplying reply)
     (mergeConfig (getDefaultConfig (serverReplying reply) ''nextjs'') None) = exampleHeaders"
  unfolding example_config
  by (simp add: baseHeaders_def truthy_def exampleHeaders_def empty_FetchOptions_def
        serverReplying_def defaultToken_def)

lemma example_baseHeaders_conditional:
  "baseHeaders (serverReplying reply)
     (mergeConfig (getDefaultConfig (serverReplying reply) ''nextjs'')
        (withHeaders (PlainRecord [(''If-None-Match'', Some v)])))
   = exampleHeaders(''if-none-match'' \<mapsto> v)"
  unfolding example_config_withHeaders
  by (simp add: baseHeaders_def truthy_def exampleHeaders_def serverReplying_def defaultToken_def
        lower_conditional)

lemma example_key: "getCacheKey defaultUrl exampleHeaders = exampleKey"
  by (simp add: getCacheKey_def exampleHeaders_def defaultUrl_def defaultToken_def json_string_def
        json_escape_def header_or_empty_def truthy_def exampleKey_def)

lemma getCacheKey_conditional:
  "getCacheKey u (hs(''if-none-match'' \<mapsto> v)) = getCacheKey u hs"
  by (simp add: getCacheKey_def header_or_empty_def)

lemma example_prepare:
  "prepare (serverReplying reply) cache None
   = Inr (exampleKey, cache exampleKey,
          \<lparr>request_url = defaultUrl,
           request_headers = conditionalHeaders exampleHeaders (cache exampleKey),
           request_options = empty_FetchOptions\<rparr>)"
  unfolding prepare_def Let_def example_baseHeaders
  by (simp add: example_config example_key example_parseURL)

lemma example_prepare_conditional:
  "prepare (serverReplying reply) cache (withHeaders (PlainRecord [(''If-None-Match'', Some v)]))
   = Inr (exampleKey, cache exampleKey,
          \<lparr>request_url = defaultUrl,
           request_headers =
             conditionalHeaders (exampleHeaders(''if-none-match'' \<mapsto> v)) (cache exampleKey),
           request_options = \<lparr>headers = Some (PlainRecord [(''If-None-Match'', Some v)]),
                               next = None,
                               init = None\<rparr>\<rparr>)"
  unfolding prepare_def Let_def example_baseHeaders_conditional
  by (simp add: example_config_withHeaders getCacheKey_conditional example_key example_parseURL)

subsection \<open>What a call that sends a request has computed\<close>

lemma prepare_cached:
  "prepare P cache config = Inr (cacheKey, cached, req) \<Longrightarrow> cached = cache cacheKey"
  by (auto simp: prepare_def Let_def split: sum.splits)

lemma prepare_headers:
  "prepare P cache config = Inr (cacheKey, cached, req) \<Longrightarrow>
     request_headers req =
       conditionalHeaders (baseHeaders P (mergeConfig (getDefaultConfig P ''nextjs'') config))
         (cache cacheKey)"
  by (auto simp: prepare_def Let_def split: sum.splits)

lemma addHeaders_lookup:
  "addHeaders hs es name = (case lastSupplied es name of Some s \<Rightarrow> Some s | None \<Rightarrow> hs name)"
proof (induction es arbitrary: hs)
  case Nil
  show ?case by simp
next
  case (Cons kv es)
  obtain key v where kv: "kv = (key, v)" by (cases kv)
  show ?case
    unfolding kv by (simp add: Cons.IH split: option.splits)
qed

text \<open>None of the headers the module sets itself is the conditional one.\<close>

lemma baseHeaders_conditional:
  "baseHeaders P c ''if-none-match'' = enumeratedHeader (fetchOptions c) ''if-none-match''"
  by (simp add: baseHeaders_def Let_def enumeratedHeader_def addHeaders_lookup split: option.splits)

text \<open>An array index never spells the name of the conditional header.\<close>

lemma toLowerCase_digit:
  "48 \<le> (of_char c :: nat) \<Longrightarrow> (of_char c :: nat) \<le> 57 \<Longrightarrow> toLowerCase_char c = c"
  by (simp add: toLowerCase_char_def)

lemma decimal_digits:
  "c \<in> set (decimal n) \<Longrightarrow> 48 \<le> (of_char c :: nat) \<and> (of_char c :: nat) \<le> 57"
proof (induction n rule: decimal.induct)
  case (1 n)
  show ?case
  proof (cases "n < 10")
    case True
    with "1.prems" have "c = char_of (48 + n)" by (simp add: decimal.simps [of n])
    with True show ?thesis by simp
  next
    case False
    with "1.prems" have "c \<in> set (decimal (n div 10)) \<or> c = char_of (48 + n mod 10)"
      by (auto simp: decimal.simps [of n])
    then show ?thesis
    proof
      assume "c \<in> set (decimal (n div 10))"
      with "1.IH" False show ?thesis by simp
    next
      assume c: "c = char_of (48 + n mod 10)"
      have "n mod 10 < 10" by simp
      then have "(48 + n mod 10) mod 256 = 48 + n mod 10" by simp
      with c show ?thesis by simp
    qed
  qed
qed

lemma decimal_not_conditional: "toLowerCase (decimal n) \<noteq> ''if-none-match''"
proof
  assume e: "toLowerCase (decimal n) = ''if-none-match''"
  have "toLowerCase (decimal n) = decimal n"
    unfolding toLowerCase_def
    by (rule map_idI) (use decimal_digits in \<open>auto intro: toLowerCase_digit\<close>)
  with e have "CHR ''i'' \<in> set (decimal n)" by simp
  from decimal_digits [OF this] show False by simp
qed

lemma tupleEntries_conditional: "lastSupplied (tupleEntries i pairs) ''if-none-match'' = None"
proof (induction pairs arbitrary: i)
  case Nil
  show ?case by simp
next
  case (Cons kv pairs)
  obtain k v where "kv = (k, v)" by (cases kv)
  with Cons show ?case by (simp add: decimal_not_conditional)
qed

text \<open>
  From headers that are not a plain object the loop takes no conditional header; from a
  plain object it takes what the caller supplied; so it takes none when the caller supplied
  none, in whichever form.
\<close>

lemma enumerated_not_plain:
  "\<not> plainObject fo \<Longrightarrow> enumeratedHeader fo ''if-none-match'' = None"
  by (auto simp: plainObject_def enumeratedHeader_def tupleEntries_conditional
        split: option.splits HeadersInit.splits)

lemma enumerated_plain:
  "plainObject fo \<Longrightarrow> enumeratedHeader fo name = suppliedHeader fo name"
  by (auto simp: plainObject_def enumeratedHeader_def suppliedHeader_def
        split: option.splits HeadersInit.splits)

lemma supplied_None_enumerated:
  "suppliedHeader fo ''if-none-match'' = None \<Longrightarrow> enumeratedHeader fo ''if-none-match'' = None"
  by (cases "plainObject fo") (simp_all add: enumerated_plain enumerated_not_plain)

lemma conditional_header_sent:
  assumes "prepare P cache config = Inr (cacheKey, cached, req)"
    and "supplied = enumeratedHeader (fetchOptions (mergeConfig (getDefaultConfig P ''nextjs'') config))
                      ''if-none-match''"
  shows "request_headers req ''if-none-match'' =
           (if truthy supplied then supplied
            else if truthy (cached_etag (cache cacheKey)) then cached_etag (cache cacheKey)
            else supplied)"
  using assms(2)
  by (simp add: prepare_headers [OF assms(1)] conditionalHeaders_def baseHeaders_conditional
        truthy_def split: option.splits)

subsection \<open>A 304 response\<close>

text \<open>
  C3, as the code has it. A call that receives a 304 response has exactly two outcomes,
  decided by the entry stored under the computed key: if the entry holds definitions that
  are truthy (every object and array is), the call returns those stored definitions,
  whatever the body of the response is (it is not parsed); if there is no entry, or none
  with definitions, or the stored definitions are falsy (\<^verbatim>\<open>null\<close>, \<^verbatim>\<open>false\<close>, zero, the
  empty string), the call fails with the stale-cache error (the code throws a plain
  \<^verbatim>\<open>Error\<close> with the message of \<^const>\<open>StaleCacheError\<close>). The cache is the one it was.
\<close>

theorem notModified_outcomes:
  assumes "prepare P cache config = Inr (cacheKey, cached, req)"
    and "fetch P req = Inr r"
    and "status r = 304"
  shows "getDefinitions P cache config =
           (case cached_definitions (cache cacheKey) of
              Some d \<Rightarrow>
                if truthy_value d then (Inr d, cache) else (Inl StaleCacheError, cache)
            | None \<Rightarrow> (Inl StaleCacheError, cache))"
proof -
  from assms(1) have "cached = cache cacheKey" by (rule prepare_cached)
  with assms show ?thesis
    by (simp add: getDefinitions_def handleResponse_def split: option.splits)
qed

theorem notModified_outcomes_witness:
  "getDefinitions (serverReplying (Inr notModified)) exampleCache None = (Inr (JObject 7), exampleCache)
   \<and> getDefinitions (serverReplying (Inr notModified)) Map.empty None
       = (Inl StaleCacheError, Map.empty)"
  using notModified_outcomes [where P = "serverReplying (Inr notModified)" and cache = exampleCache
      and config = None and r = notModified, OF example_prepare]
    notModified_outcomes [where P = "serverReplying (Inr notModified)" and cache = Map.empty
      and config = None and r = notModified, OF example_prepare]
  by (simp add: example_fetch notModified_def exampleCache_def cached_definitions_def)

text \<open>
  C3 as it is stated fails for a stored payload that is falsy. A 200 response with an ETag
  and the body \<^verbatim>\<open>0\<close> stores that payload under the key; the 304 that follows finds the
  cache holding a payload for the key, and the call fails with the stale-cache error.
\<close>

theorem falsy_payload_is_stale:
  "cached_definitions
     (snd (getDefinitions (serverReplying (Inr (okResponse (Some ''etag-1'') (JNumber 0))))
             Map.empty None) exampleKey) = Some (JNumber 0)
   \<and> fst (getDefinitions (serverReplying (Inr notModified))
             (snd (getDefinitions (serverReplying (Inr (okResponse (Some ''etag-1'') (JNumber 0))))
                     Map.empty None)) None) = Inl StaleCacheError"
  by (simp add: getDefinitions_def example_prepare example_fetch handleResponse_def okResponse_def
        ok_def truthy_def notModified_def cached_definitions_def)

subsection \<open>A successful response\<close>

text \<open>
  C4, as the code has it. A call receives a 2xx response whose body parses. If the response
  carries a non-empty ETag, the call returns the parsed document and the entry under the
  computed key becomes that ETag with that document, replacing what was there. If it carries
  no ETag, or an empty one, the call returns the parsed document and the entry under the key
  is deleted; a later call that computes the same key, and whose caller supplies no
  conditional header (or from whose headers the loop of lines 114-120 reads none), then
  sends none.
\<close>

theorem success_updates_cache:
  fixes P :: "('p, 'i) platform"
  assumes "prepare P cache config = Inr (cacheKey, cached, req)"
    and "fetch P req = Inr r"
    and "ok r"
    and "json r = Inr d"
  shows "(truthy (etag_header r) \<longrightarrow>
            getDefinitions P cache config =
              (Inr d, cache(cacheKey \<mapsto> \<lparr>etag = etag_header r, definitions = Some d\<rparr>)))
       \<and> (\<not> truthy (etag_header r) \<longrightarrow>
            getDefinitions P cache config = (Inr d, cache(cacheKey := None))
            \<and> (\<forall>(P' :: ('p, 'i) platform) config' cached' req'.
                  prepare P' (snd (getDefinitions P cache config)) config'
                    = Inr (cacheKey, cached', req')
                  \<and> (suppliedHeader
                        (fetchOptions (mergeConfig (getDefaultConfig P' ''nextjs'') config'))
                        ''if-none-match'' = None
                     \<or> enumeratedHeader
                        (fetchOptions (mergeConfig (getDefaultConfig P' ''nextjs'') config'))
                        ''if-none-match'' = None)
                  \<longrightarrow> request_headers req' ''if-none-match'' = None))"
proof -
  have ne: "status r \<noteq> 304" using assms(3) by (auto simp: ok_def)
  have g: "getDefinitions P cache config = handleResponse cacheKey cached cache r"
    using assms(1,2) by (simp add: getDefinitions_def)
  have 1: "truthy (etag_header r) \<Longrightarrow> getDefinitions P cache config =
              (Inr d, cache(cacheKey \<mapsto> \<lparr>etag = etag_header r, definitions = Some d\<rparr>))"
    using ne assms(3,4) by (simp add: g handleResponse_def)
  have 2: "\<not> truthy (etag_header r) \<Longrightarrow>
             getDefinitions P cache config = (Inr d, cache(cacheKey := None))"
    using ne assms(3,4) by (simp add: g handleResponse_def)
  have 3: "request_headers req' ''if-none-match'' = None"
    if "\<not> truthy (etag_header r)"
      and p: "prepare P' (snd (getDefinitions P cache config)) config'
                = Inr (cacheKey, cached', req')"
      and s: "suppliedHeader (fetchOptions (mergeConfig (getDefaultConfig P' ''nextjs'') config'))
                ''if-none-match'' = None
              \<or> enumeratedHeader
                (fetchOptions (mergeConfig (getDefaultConfig P' ''nextjs'') config'))
                ''if-none-match'' = None"
    for P' :: "('p, 'i) platform" and config' cached' req'
  proof -
    from s have "enumeratedHeader
                   (fetchOptions (mergeConfig (getDefaultConfig P' ''nextjs'') config'))
                   ''if-none-match'' = None"
      by (auto dest: supplied_None_enumerated)
    with conditional_header_sent [OF p refl] 2 [OF that(1)] show ?thesis
      by (simp add: truthy_def cached_etag_def)
  qed
  from 1 2 3 show ?thesis by blast
qed

theorem success_updates_cache_witness:
  "getDefinitions (serverReplying (Inr (okResponse (Some ''etag-2'') (JObject 9)))) exampleCache None
     = (Inr (JObject 9), exampleCache(exampleKey \<mapsto> \<lparr>etag = Some ''etag-2'', definitions = Some (JObject 9)\<rparr>))
   \<and> getDefinitions (serverReplying (Inr (okResponse None (JObject 9)))) exampleCache None
     = (Inr (JObject 9), exampleCache(exampleKey := None))
   \<and> sentHeader (serverReplying (Inr notModified))
        (snd (getDefinitions (serverReplying (Inr (okResponse None (JObject 9)))) exampleCache None))
        None ''if-none-match'' = None"
proof -
  let ?P = "serverReplying (Inr (okResponse (Some ''etag-2'') (JObject 9)))"
  let ?Q = "serverReplying (Inr (okResponse None (JObject 9)))"
  let ?R = "serverReplying (Inr notModified)"
  have a: "getDefinitions ?P exampleCache None
     = (Inr (JObject 9), exampleCache(exampleKey \<mapsto> \<lparr>etag = Some ''etag-2'', definitions = Some (JObject 9)\<rparr>))"
    using success_updates_cache [where P = ?P and cache = exampleCache and config = None
        and r = "okResponse (Some ''etag-2'') (JObject 9)" and d = "JObject 9", OF example_prepare]
    by (simp add: example_fetch okResponse_def ok_def truthy_def)
  have nt: "\<not> truthy (etag_header (okResponse None (JObject 9)))"
    by (simp add: okResponse_def truthy_def)
  have "ok (okResponse None (JObject 9))" and "json (okResponse None (JObject 9)) = Inr (JObject 9)"
    by (simp_all add: okResponse_def ok_def)
  note t = success_updates_cache [where P = ?Q and cache = exampleCache and config = None
        and r = "okResponse None (JObject 9)" and d = "JObject 9", OF example_prepare example_fetch this,
        THEN conjunct2, rule_format, OF nt]
  from t have b: "getDefinitions ?Q exampleCache None = (Inr (JObject 9), exampleCache(exampleKey := None))"
    by (rule conjunct1)
  have s: "suppliedHeader (fetchOptions (mergeConfig (getDefaultConfig ?R ''nextjs'') None))
             ''if-none-match'' = None"
    by (simp add: example_config suppliedHeader_def empty_FetchOptions_def)
  from t [THEN conjunct2, rule_format, OF conjI, OF example_prepare disjI1, OF s]
  have c: "sentHeader ?R (snd (getDefinitions ?Q exampleCache None)) None ''if-none-match'' = None"
    by (simp add: sentHeader_def example_prepare)
  from a b c show ?thesis by simp
qed

text \<open>
  C4 as it is stated fails twice. A 200 response whose ETag header is the empty string
  deletes the entry instead of storing it. And after a 200 response without an ETag a later
  call for the same key does send a conditional header when its caller supplies one.
\<close>

theorem empty_etag_evicts:
  "etag_header (okResponse (Some '''') (JObject 9)) = Some ''''
   \<and> snd (getDefinitions (serverReplying (Inr (okResponse (Some '''') (JObject 9)))) exampleCache None)
        exampleKey = None
   \<and> sentHeader (serverReplying (Inr notModified))
        (snd (getDefinitions (serverReplying (Inr (okResponse None (JObject 9)))) exampleCache None))
        (withHeaders (PlainRecord [(''If-None-Match'', Some ''etag-0'')])) ''if-none-match'' = Some ''etag-0''"
  by (simp add: getDefinitions_def example_prepare example_fetch handleResponse_def okResponse_def
        ok_def truthy_def sentHeader_def example_prepare_conditional conditionalHeaders_def)

subsection \<open>The conditional header\<close>

lemma example_baseHeaders_instance:
  "baseHeaders (serverReplying reply)
     (mergeConfig (getDefaultConfig (serverReplying reply) ''nextjs'')
        (withHeaders (HeadersInstance held)))
   = exampleHeaders"
  unfolding example_config_withHeaders
  by (simp add: baseHeaders_def truthy_def exampleHeaders_def serverReplying_def defaultToken_def)

lemma example_prepare_instance:
  "prepare (serverReplying reply) cache (withHeaders (HeadersInstance held))
   = Inr (exampleKey, cache exampleKey,
          \<lparr>request_url = defaultUrl,
           request_headers = conditionalHeaders exampleHeaders (cache exampleKey),
           request_options = \<lparr>headers = Some (HeadersInstance held), next = None,
                               init = None\<rparr>\<rparr>)"
  unfolding prepare_def Let_def example_baseHeaders_instance
  by (simp add: example_config_withHeaders example_key example_parseURL)

text \<open>
  C5, as the code has it, for a caller who gives the headers as a plain object or gives
  none. On the request a call sends, the conditional header is: the value the caller supplied
  (under any letter-casing of the name; the last such entry counts), when that value is not
  empty; otherwise the etag stored under the computed key, when there is a non-empty one;
  otherwise what the caller supplied, that is, nothing or the empty string. So a non-empty
  value of the caller is never replaced, and the stored etag is used only when the caller
  gave no value or an empty one.
\<close>

theorem conditional_header_rule:
  assumes "prepare P cache config = Inr (cacheKey, cached, req)"
    and "plainObject (fetchOptions (mergeConfig (getDefaultConfig P ''nextjs'') config))"
    and "supplied = suppliedHeader (fetchOptions (mergeConfig (getDefaultConfig P ''nextjs'') config))
                      ''if-none-match''"
  shows "request_headers req ''if-none-match'' =
           (if truthy supplied then supplied
            else if truthy (cached_etag (cache cacheKey)) then cached_etag (cache cacheKey)
            else supplied)"
proof -
  from assms(2,3)
  have "supplied = enumeratedHeader
                     (fetchOptions (mergeConfig (getDefaultConfig P ''nextjs'') config))
                     ''if-none-match''"
    by (simp add: enumerated_plain)
  with assms(1) show ?thesis by (rule conditional_header_sent)
qed

theorem conditional_header_rule_witness:
  "sentHeader (serverReplying (Inr notModified)) exampleCache
     (withHeaders (PlainRecord [(''If-None-Match'', Some ''etag-0'')])) ''if-none-match'' = Some ''etag-0''
   \<and> sentHeader (serverReplying (Inr notModified)) exampleCache None ''if-none-match''
       = Some ''etag-1''
   \<and> sentHeader (serverReplying (Inr notModified)) Map.empty None ''if-none-match'' = None"
  using conditional_header_rule
      [OF example_prepare_conditional [of "Inr notModified" exampleCache "''etag-0''"] _ refl]
    conditional_header_rule [OF example_prepare [of "Inr notModified" exampleCache] _ refl]
    conditional_header_rule [OF example_prepare [of "Inr notModified" Map.empty] _ refl]
  by (simp add: sentHeader_def example_prepare_conditional example_prepare
        example_config_withHeaders example_config suppliedHeader_def plainObject_def
        lower_conditional truthy_def exampleCache_def cached_etag_def empty_FetchOptions_def)

text \<open>
  C5 as it is stated fails for a caller who supplies the conditional header with an empty
  value: the stored etag is sent in its place.
\<close>

theorem caller_header_overridden:
  "suppliedHeader
     (fetchOptions (mergeConfig (getDefaultConfig (serverReplying (Inr notModified)) ''nextjs'')
                      (withHeaders (PlainRecord [(''If-None-Match'', Some '''')]))))
     ''if-none-match'' = Some ''''
   \<and> sentHeader (serverReplying (Inr notModified)) exampleCache
        (withHeaders (PlainRecord [(''If-None-Match'', Some '''')])) ''if-none-match'' = Some ''etag-1''"
  by (simp add: example_config_withHeaders suppliedHeader_def lower_conditional sentHeader_def
        example_prepare_conditional conditionalHeaders_def truthy_def exampleCache_def
        cached_etag_def)

text \<open>
  The other two forms of headers. \<^verbatim>\<open>Object.entries\<close> finds no entry of that name in a
  \<^verbatim>\<open>Headers\<close> instance or in an array of pairs, and line 131 puts the headers built by the
  module in the place of the caller's: the conditional header of such a caller is not sent,
  and the stored etag is sent when there is one.
\<close>

lemma other_forms_not_read:
  assumes "prepare P cache config = Inr (cacheKey, cached, req)"
    and "\<not> plainObject (fetchOptions (mergeConfig (getDefaultConfig P ''nextjs'') config))"
  shows "request_headers req ''if-none-match'' =
           (if truthy (cached_etag (cache cacheKey)) then cached_etag (cache cacheKey) else None)"
  using conditional_header_sent [OF assms(1) refl] enumerated_not_plain [OF assms(2)]
  by (simp add: truthy_def)

lemma headers_instance_dropped:
  "suppliedHeader
     (fetchOptions (mergeConfig (getDefaultConfig (serverReplying (Inr notModified)) ''nextjs'')
                      (withHeaders (HeadersInstance [(''If-None-Match'', ''etag-0'')]))))
     ''if-none-match'' = Some ''etag-0''
   \<and> sentHeader (serverReplying (Inr notModified)) exampleCache
        (withHeaders (HeadersInstance [(''If-None-Match'', ''etag-0'')])) ''if-none-match''
       = Some ''etag-1''"
  by (simp add: example_config_withHeaders suppliedHeader_def heldValue_def lower_conditional
        sentHeader_def example_prepare_instance conditionalHeaders_def truthy_def
        exampleCache_def cached_etag_def exampleHeaders_def)

subsection \<open>What leaves the cache alone\<close>

text \<open>
  C6. When the status of the response is neither 2xx nor 304, the call returns what parsing
  the body gives and the cache is the one it was. When the status is 304 the cache is the one
  it was as well, whatever ETag the 304 response carries.
\<close>

theorem other_status_leaves_cache:
  assumes "prepare P cache config = Inr (cacheKey, cached, req)"
    and "fetch P req = Inr r"
  shows "(status r \<noteq> 304 \<and> \<not> ok r \<longrightarrow> getDefinitions P cache config = (json r, cache))
       \<and> (status r = 304 \<longrightarrow> snd (getDefinitions P cache config) = cache)"
  using assms
  by (auto simp: getDefinitions_def handleResponse_def split: option.splits sum.splits)

theorem other_status_leaves_cache_witness:
  "getDefinitions (serverReplying (Inr serverError)) exampleCache None = (Inr (JObject 0), exampleCache)
   \<and> snd (getDefinitions (serverReplying (Inr notModified)) exampleCache None) = exampleCache
   \<and> etag_header notModified \<noteq> cached_etag (exampleCache exampleKey)"
  using other_status_leaves_cache [where P = "serverReplying (Inr serverError)"
      and cache = exampleCache and config = None and r = serverError, OF example_prepare]
    other_status_leaves_cache [where P = "serverReplying (Inr notModified)"
      and cache = exampleCache and config = None and r = notModified, OF example_prepare]
  by (simp add: example_fetch serverError_def notModified_def ok_def exampleCache_def
        cached_etag_def)

text \<open>
  C10. When the status of the response is not 304 and parsing the body fails, the call fails
  with the error of the parse and the cache is the one it was: nothing is stored and nothing
  is deleted.
\<close>

theorem parse_failure_leaves_cache:
  assumes "prepare P cache config = Inr (cacheKey, cached, req)"
    and "fetch P req = Inr r"
    and "status r \<noteq> 304"
    and "json r = Inl e"
  shows "getDefinitions P cache config = (Inl e, cache)"
  using assms by (simp add: getDefinitions_def handleResponse_def)

theorem parse_failure_leaves_cache_witness:
  "getDefinitions (serverReplying (Inr unparsable)) exampleCache None
     = (Inl (Error ''Unexpected token''), exampleCache)"
  using parse_failure_leaves_cache [where P = "serverReplying (Inr unparsable)"
      and cache = exampleCache and config = None and r = unparsable
      and e = "Error ''Unexpected token''", OF example_prepare]
  by (simp add: example_fetch unparsable_def)

section \<open>Properties of the flag evaluation\<close>

subsection \<open>The three ways through \<^const>\<open>flag\<close>\<close>

lemma reusePermitted_iff:
  "reusePermitted ec dc key \<longleftrightarrow>
     toggles ec \<noteq> None \<and> contextKey ec = Some key
     \<and> (if truthy (ev_etag ec) \<and> truthy (dc_etag dc) then ev_etag ec = dc_etag dc
         else ev_definitions ec = dc_definitions dc)"
  by (auto simp: reusePermitted_def freshnessSignal_def split: option.splits)

text \<open>The condition of the \<^verbatim>\<open>if\<close> on lines 80-84 is the reuse rule of the specification.\<close>

lemma flag_try_decision:
  "flag_try C name ctx options dc ec =
     (case getDefinitionsCached C (fetchArguments options) dc of
        (Inl e, dc') \<Rightarrow> (Inl e, dc', ec, [])
      | (Inr defs, dc') \<Rightarrow>
          if reusePermitted ec dc' (serializeContext C ctx)
          then (clientLookup C name (the (toggles ec)), dc', ec,
                [FlagsClient (the (toggles ec))])
          else (case evaluateFlags C defs ctx of
                  Inl e \<Rightarrow> (Inl e, dc', ec, [EvaluateFlags defs ctx])
                | Inr ts \<Rightarrow>
                    (clientLookup C name ts, dc',
                     \<lparr>ev_etag = dc_etag dc',
                      ev_definitions = (case dc_definitions dc' of
                                          Some d \<Rightarrow> Some d
                                        | None \<Rightarrow> Some defs),
                      contextKey = Some (serializeContext C ctx),
                      toggles = Some ts\<rparr>,
                     [EvaluateFlags defs ctx, FlagsClient ts])))"
  unfolding flag_try_def reusePermitted_iff Let_def by (rule refl)

lemma flag_of_try:
  "flag_try C name ctx options dc ec = (r, dc', ec', cs) \<Longrightarrow>
     flag C name ctx options dc ec =
       \<lparr>result = returned r, definitionsCache = dc', evaluationCache = ec', calls = cs\<rparr>"
  by (simp add: flag_def)

lemma flag_fetch_failure:
  "getDefinitionsCached C (fetchArguments options) dc = (Inl e, dc') \<Longrightarrow>
     flag C name ctx options dc ec =
       \<lparr>result = failure e, definitionsCache = dc', evaluationCache = ec, calls = []\<rparr>"
  by (simp add: flag_def flag_try_def returned_def)

lemma flag_hit:
  assumes "getDefinitionsCached C (fetchArguments options) dc = (Inr defs, dc')"
    and "reusePermitted ec dc' (serializeContext C ctx)"
  shows "flag C name ctx options dc ec =
           \<lparr>result = returned (clientLookup C name (the (toggles ec))),
            definitionsCache = dc', evaluationCache = ec,
            calls = [FlagsClient (the (toggles ec))]\<rparr>"
  by (rule flag_of_try) (simp add: flag_try_decision assms)

lemma flag_miss_error:
  assumes "getDefinitionsCached C (fetchArguments options) dc = (Inr defs, dc')"
    and "\<not> reusePermitted ec dc' (serializeContext C ctx)"
    and "evaluateFlags C defs ctx = Inl e"
  shows "flag C name ctx options dc ec =
           \<lparr>result = failure e, definitionsCache = dc', evaluationCache = ec,
            calls = [EvaluateFlags defs ctx]\<rparr>"
  using flag_of_try [of C name ctx options dc ec "Inl e" dc' ec "[EvaluateFlags defs ctx]"]
  by (simp add: flag_try_decision assms returned_def)

lemma flag_miss:
  assumes "getDefinitionsCached C (fetchArguments options) dc = (Inr defs, dc')"
    and "\<not> reusePermitted ec dc' (serializeContext C ctx)"
    and "evaluateFlags C defs ctx = Inr ts"
  shows "flag C name ctx options dc ec =
           \<lparr>result = returned (clientLookup C name ts),
            definitionsCache = dc',
            evaluationCache =
              \<lparr>ev_etag = dc_etag dc',
               ev_definitions = (case dc_definitions dc' of
                                   Some d \<Rightarrow> Some d
                                 | None \<Rightarrow> Some defs),
               contextKey = Some (serializeContext C ctx),
               toggles = Some ts\<rparr>,
            calls = [EvaluateFlags defs ctx, FlagsClient ts]\<rparr>"
  by (rule flag_of_try) (simp add: flag_try_decision assms)

subsection \<open>The test's collaborators, evaluated\<close>

lemma userContext_key: \<open>stringifyContext userContext = ''{"userId":"123"}''\<close>
  by (simp add: stringifyContext_def userContext_def json_string_def json_escape_def)

lemma mock_simps:
  "getDefinitionsCached (mockCollaborators f) = f"
  "serializeContext (mockCollaborators f) userContext = stringifyContext userContext"
  "evaluateFlags (mockCollaborators f) d c = Inr mockToggles"
  "flagsClient (mockCollaborators f) = mockClient"
  by (simp_all add: mockCollaborators_def)

lemma seeded_toggles: "toggles seededEvaluationCache = Some mockToggles"
  by (simp add: seededEvaluationCache_def)

lemma emptyHandle_simps: "dc_etag emptyHandle = None" "dc_definitions emptyHandle = None"
  by (simp_all add: emptyHandle_def)

lemma seeded_permitted:
  "reusePermitted seededEvaluationCache currentHandle (stringifyContext userContext)"
  by (simp add: reusePermitted_def freshnessSignal_def seededEvaluationCache_def truthy_def
        userContext_key currentHandle_def)

lemma seeded_not_permitted:
  "\<not> reusePermitted seededEvaluationCache \<lparr>dc_etag = Some ''etag-2'', dc_definitions = Some 8\<rparr>
       (stringifyContext userContext)"
  by (simp add: reusePermitted_def freshnessSignal_def seededEvaluationCache_def truthy_def)

lemma empty_not_permitted: "\<not> reusePermitted emptyEvaluationCache dc key"
  by (simp add: reusePermitted_def emptyEvaluationCache_def)

lemma serving_current:
  "getDefinitionsCached (mockCollaborators (serving (Some ''etag-1'') 7)) (fetchArguments None)
     emptyHandle = (Inr 7, currentHandle)"
  by (simp add: mock_simps serving_def currentHandle_def)

lemma serving_changed:
  "getDefinitionsCached (mockCollaborators (serving (Some ''etag-2'') 8)) (fetchArguments None)
     emptyHandle = (Inr 8, \<lparr>dc_etag = Some ''etag-2'', dc_definitions = Some 8\<rparr>)"
  by (simp add: mock_simps serving_def)

lemma rejecting_current:
  "getDefinitionsCached (mockCollaborators rejecting) (fetchArguments None) currentHandle
     = (Inl (Error ''fetch failed''), currentHandle)"
  by (simp add: mock_simps rejecting_def)

subsection \<open>The reuse decision\<close>

text \<open>
  C1, as the code has it. In every call whose definitions fetch returns, the stored toggle
  list is reused if and only if reuse is permitted, and the evaluator is invoked if and only
  if it is not. Reuse is permitted when the evaluation cache holds a toggle list, its context
  key is the serialization of the caller's context, and the freshness signal says nothing
  changed: equality of the etags when the evaluation cache and the definitions cache both
  carry a non-empty one, otherwise identity of the stored definitions with the current ones,
  the definitions cache being read after the fetch.
\<close>

theorem reuse_decision:
  assumes "getDefinitionsCached C (fetchArguments options) dc = (Inr defs, dc')"
  shows "(storedTogglesReused ec (flag C name ctx options dc ec)
            \<longleftrightarrow> reusePermitted ec dc' (serializeContext C ctx))
       \<and> (evaluatorInvoked (flag C name ctx options dc ec)
            \<longleftrightarrow> \<not> reusePermitted ec dc' (serializeContext C ctx))"
proof (cases "reusePermitted ec dc' (serializeContext C ctx)")
  case True
  then obtain ts where ts: "toggles ec = Some ts"
    by (auto simp: reusePermitted_def split: option.splits)
  from True ts show ?thesis
    by (simp add: flag_hit [OF assms True] storedTogglesReused_def evaluatorInvoked_def)
next
  case False
  show ?thesis
  proof (cases "evaluateFlags C defs ctx")
    case (Inl e)
    from False show ?thesis
      by (simp add: flag_miss_error [OF assms False Inl] storedTogglesReused_def
            evaluatorInvoked_def split: option.splits)
  next
    case (Inr ts)
    from False show ?thesis
      by (simp add: flag_miss [OF assms False Inr] storedTogglesReused_def
            evaluatorInvoked_def split: option.splits)
  qed
qed

text \<open>
  The first two calls of the test: the same etag again reuses the stored list, a changed etag
  invokes the evaluator.
\<close>

theorem reuse_decision_witness:
  "storedTogglesReused seededEvaluationCache
     (flag (mockCollaborators (serving (Some ''etag-1'') 7)) ''feature-a'' userContext None
        emptyHandle seededEvaluationCache)
   \<and> \<not> evaluatorInvoked
     (flag (mockCollaborators (serving (Some ''etag-1'') 7)) ''feature-a'' userContext None
        emptyHandle seededEvaluationCache)
   \<and> evaluatorInvoked
     (flag (mockCollaborators (serving (Some ''etag-2'') 8)) ''feature-a'' userContext None
        emptyHandle seededEvaluationCache)"
  using reuse_decision [OF serving_current, of seededEvaluationCache "''feature-a''" userContext]
    reuse_decision [OF serving_changed, of seededEvaluationCache "''feature-a''" userContext]
  by (simp add: mock_simps seeded_permitted seeded_not_permitted)

text \<open>
  C1 as it is stated, for every call, fails when the definitions fetch rejects: the three
  conditions hold, and the stored toggle list is not reused; the call returns the failure.
\<close>

theorem reuse_needs_fetch:
  "reusePermitted seededEvaluationCache
      (definitionsCache (flag (mockCollaborators rejecting) ''feature-a'' userContext None
          currentHandle seededEvaluationCache))
      (serializeContext (mockCollaborators rejecting) userContext)
   \<and> \<not> storedTogglesReused seededEvaluationCache
        (flag (mockCollaborators rejecting) ''feature-a'' userContext None
          currentHandle seededEvaluationCache)
   \<and> result (flag (mockCollaborators rejecting) ''feature-a'' userContext None
          currentHandle seededEvaluationCache)
       = failure (Error ''fetch failed'')"
  by (simp add: flag_fetch_failure [OF rejecting_current] seeded_permitted mock_simps
        storedTogglesReused_def seeded_toggles)

subsection \<open>Writes to the evaluation cache\<close>

text \<open>
  C8, as the code has it. In every call whose definitions fetch returns and in which reuse is
  not permitted: if the evaluator returns a toggle list, the evaluation cache afterwards is
  exactly that list, the serialized context key, the etag of the definitions cache, and for
  the definitions the ones of the definitions cache when it holds some, otherwise the document
  the fetch returned; if the evaluator throws, the evaluation cache is the one it was. It is
  never updated in part.
\<close>

theorem miss_overwrites_in_full:
  assumes "getDefinitionsCached C (fetchArguments options) dc = (Inr defs, dc')"
    and "\<not> reusePermitted ec dc' (serializeContext C ctx)"
  shows "(\<forall>ts. evaluateFlags C defs ctx = Inr ts \<longrightarrow>
            evaluationCache (flag C name ctx options dc ec) =
              \<lparr>ev_etag = dc_etag dc',
               ev_definitions = (case dc_definitions dc' of
                                   Some d \<Rightarrow> Some d
                                 | None \<Rightarrow> Some defs),
               contextKey = Some (serializeContext C ctx),
               toggles = Some ts\<rparr>)
       \<and> (\<forall>e. evaluateFlags C defs ctx = Inl e \<longrightarrow>
            evaluationCache (flag C name ctx options dc ec) = ec)"
proof (cases "evaluateFlags C defs ctx")
  case (Inl e)
  from flag_miss_error [OF assms Inl] have "evaluationCache (flag C name ctx options dc ec) = ec"
    by simp
  with Inl show ?thesis by simp
next
  case (Inr ts)
  from flag_miss [OF assms Inr] Inr show ?thesis by simp
qed

theorem miss_overwrites_in_full_witness:
  "evaluationCache (flag (mockCollaborators (serving (Some ''etag-2'') 8)) ''feature-a''
        userContext None emptyHandle seededEvaluationCache)
     = \<lparr>ev_etag = Some ''etag-2'', ev_definitions = Some 8,
        contextKey = Some (stringifyContext userContext), toggles = Some mockToggles\<rparr>"
proof -
  have n: "\<not> reusePermitted seededEvaluationCache
               \<lparr>dc_etag = Some ''etag-2'', dc_definitions = Some 8\<rparr>
               (serializeContext (mockCollaborators (serving (Some ''etag-2'') 8)) userContext)"
    by (simp add: mock_simps seeded_not_permitted)
  from miss_overwrites_in_full [OF serving_changed n, of "''feature-a''"]
  show ?thesis by (simp add: mock_simps)
qed

text \<open>
  C8 as it is stated fails when the fetch returns a document and the definitions cache holds
  none: the evaluation cache then stores the returned document, not the (absent) definitions
  of the definitions cache.
\<close>

theorem fallback_to_fetched_definitions:
  "ev_definitions (evaluationCache (flag (mockCollaborators (servingUncached 7)) ''feature-a''
        userContext None emptyHandle emptyEvaluationCache)) = Some 7
   \<and> dc_definitions (definitionsCache (flag (mockCollaborators (servingUncached 7)) ''feature-a''
        userContext None emptyHandle emptyEvaluationCache)) = None"
proof -
  have f: "getDefinitionsCached (mockCollaborators (servingUncached 7)) (fetchArguments None)
              emptyHandle = (Inr 7, emptyHandle)"
    by (simp add: mock_simps servingUncached_def)
  have n: "\<not> reusePermitted emptyEvaluationCache emptyHandle
              (serializeContext (mockCollaborators (servingUncached 7)) userContext)"
    by (rule empty_not_permitted)
  show ?thesis
    by (simp add: flag_miss [OF f n mock_simps(3)] emptyHandle_simps)
qed

text \<open>
  C9. In every call in which reuse is permitted, against the definitions cache as the fetch
  left it, the evaluation cache after the call is the one before it, in all four fields.
\<close>

theorem hit_leaves_evaluation_cache:
  assumes "reusePermitted ec (snd (getDefinitionsCached C (fetchArguments options) dc))
             (serializeContext C ctx)"
  shows "evaluationCache (flag C name ctx options dc ec) = ec"
proof (cases "getDefinitionsCached C (fetchArguments options) dc")
  case (Pair r dc')
  show ?thesis
  proof (cases r)
    case (Inl e)
    with Pair show ?thesis by (simp add: flag_fetch_failure)
  next
    case (Inr defs)
    with Pair assms show ?thesis by (simp add: flag_hit)
  qed
qed

theorem hit_leaves_evaluation_cache_witness:
  "evaluationCache (flag (mockCollaborators (serving (Some ''etag-1'') 7)) ''feature-a''
        userContext None emptyHandle seededEvaluationCache) = seededEvaluationCache"
proof -
  have "reusePermitted seededEvaluationCache
          (snd (getDefinitionsCached (mockCollaborators (serving (Some ''etag-1'') 7))
                  (fetchArguments None) emptyHandle))
          (serializeContext (mockCollaborators (serving (Some ''etag-1'') 7)) userContext)"
    by (simp add: serving_current mock_simps(2) seeded_permitted)
  then show ?thesis by (rule hit_leaves_evaluation_cache)
qed

subsection \<open>The value returned\<close>

text \<open>
  C2. Whatever the name, the context, the options and the collaborators are, a call returns
  a result and throws nothing. Step by step: if the definitions fetch throws, the result has
  \<open>enabled = False\<close>, the variant with no member, and the error thrown; so it has if the
  evaluator throws on a miss, if building the client throws, or if one of the two lookups
  throws; and if no step throws, the result is what the two lookups gave, with no error.
\<close>

theorem flag_never_throws:
  "(case getDefinitionsCached C (fetchArguments options) dc of
      (Inl e, dc') \<Rightarrow> result (flag C name ctx options dc ec) =
            \<lparr>enabled = False,
             variant = \<lparr>variant_name = None, variant_enabled = None,
                        variant_feature_enabled = None, variant_payload = None\<rparr>,
             error = Some e\<rparr>
    | (Inr defs, dc') \<Rightarrow>
        (case (if reusePermitted ec dc' (serializeContext C ctx)
               then Inr (the (toggles ec))
               else evaluateFlags C defs ctx) of
           Inl e \<Rightarrow> result (flag C name ctx options dc ec) =
            \<lparr>enabled = False,
             variant = \<lparr>variant_name = None, variant_enabled = None,
                        variant_feature_enabled = None, variant_payload = None\<rparr>,
             error = Some e\<rparr>
         | Inr ts \<Rightarrow>
             (case flagsClient C ts of
                Inl e \<Rightarrow> result (flag C name ctx options dc ec) =
            \<lparr>enabled = False,
             variant = \<lparr>variant_name = None, variant_enabled = None,
                        variant_feature_enabled = None, variant_payload = None\<rparr>,
             error = Some e\<rparr>
              | Inr cl \<Rightarrow>
                  (case isEnabled cl name of
                     Inl e \<Rightarrow> result (flag C name ctx options dc ec) =
            \<lparr>enabled = False,
             variant = \<lparr>variant_name = None, variant_enabled = None,
                        variant_feature_enabled = None, variant_payload = None\<rparr>,
             error = Some e\<rparr>
                   | Inr b \<Rightarrow>
                       (case getVariant cl name of
                          Inl e \<Rightarrow> result (flag C name ctx options dc ec) =
            \<lparr>enabled = False,
             variant = \<lparr>variant_name = None, variant_enabled = None,
                        variant_feature_enabled = None, variant_payload = None\<rparr>,
             error = Some e\<rparr>
                        | Inr v \<Rightarrow> result (flag C name ctx options dc ec)
                                     = \<lparr>enabled = b, variant = v, error = None\<rparr>)))))"
proof (cases "getDefinitionsCached C (fetchArguments options) dc")
  case (Pair r dc')
  show ?thesis
  proof (cases r)
    case (Inl e)
    with Pair show ?thesis by (simp add: flag_fetch_failure failure_def emptyVariant_def)
  next
    case (Inr defs)
    note f = Pair [unfolded Inr]
    show ?thesis
    proof (cases "reusePermitted ec dc' (serializeContext C ctx)")
      case True
      then show ?thesis
        by (simp add: f flag_hit [OF f True] clientLookup_def returned_def failure_def
              emptyVariant_def split: sum.splits)
    next
      case False
      show ?thesis
      proof (cases "evaluateFlags C defs ctx")
        case (Inl e)
        with False show ?thesis
          by (simp add: f flag_miss_error [OF f False Inl] failure_def emptyVariant_def)
      next
        case (Inr ts)
        with False show ?thesis
          by (simp add: f flag_miss [OF f False Inr] clientLookup_def returned_def failure_def
                emptyVariant_def split: sum.splits)
      qed
    qed
  qed
qed

text \<open>A fetch that rejects gives the failure; the test's collaborators give the enabled flag.\<close>

theorem flag_never_throws_witness:
  "result (flag (mockCollaborators rejecting) ''feature-a'' userContext None
        emptyHandle emptyEvaluationCache)
       = \<lparr>enabled = False,
          variant = \<lparr>variant_name = None, variant_enabled = None,
                     variant_feature_enabled = None, variant_payload = None\<rparr>,
          error = Some (Error ''fetch failed'')\<rparr>
   \<and> result (flag (mockCollaborators (serving (Some ''etag-1'') 7)) ''feature-a'' userContext None
        emptyHandle emptyEvaluationCache)
       = \<lparr>enabled = True, variant = mockVariant, error = None\<rparr>"
  using flag_never_throws [where C = "mockCollaborators rejecting" and options = None
          and dc = emptyHandle and name = "''feature-a''" and ec = emptyEvaluationCache
          and ctx = userContext]
    flag_never_throws [where C = "mockCollaborators (serving (Some ''etag-1'') 7)"
          and options = None and dc = emptyHandle and name = "''feature-a''"
          and ec = emptyEvaluationCache and ctx = userContext]
  by (simp add: mock_simps rejecting_def serving_def empty_not_permitted mockClient_def
        mockToggles_def)

end
